theory Spec2Isabelle
  imports Complex_Main "HOL-Library.Word"
begin

section \<open>JavaScript strings\<close>

text \<open>
  A JavaScript string is a sequence of UTF-16 code units. The card validator and
  \<open>String.prototype.trim\<close> classify code units (digits, the hyphen, the white space
  class \<open>\s\<close>), and \<open>simpleHash\<close> reads them with \<open>charCodeAt\<close>, so a string is
  modelled as the list of its code units. \<open>js\<close> turns an ASCII literal into such a list.
\<close>

type_synonym js_string = "nat list"

definition js :: "string \<Rightarrow> js_string" where
  "js s = map of_char s"

text \<open>The regular-expression class \<open>[0-9]\<close> (so \<open>\D\<close> is its complement).\<close>

definition isDigit :: "nat \<Rightarrow> bool" where
  "isDigit c \<longleftrightarrow> 48 \<le> c \<and> c \<le> 57"

text \<open>
  The class \<open>\s\<close> of ECMAScript: TAB, LF, VT, FF, CR, SPACE, NBSP, U+1680,
  U+2000 to U+200A, U+2028, U+2029, U+202F, U+205F, U+3000 and U+FEFF. The same set is
  what \<open>trim\<close> removes at both ends (white space and line terminators).
\<close>

definition isSpace :: "nat \<Rightarrow> bool" where
  "isSpace c \<longleftrightarrow>
     (9 \<le> c \<and> c \<le> 13) \<or> c = 32 \<or> c = 160 \<or> c = 5760 \<or> (8192 \<le> c \<and> c \<le> 8202) \<or>
     c = 8232 \<or> c = 8233 \<or> c = 8239 \<or> c = 8287 \<or> c = 12288 \<or> c = 65279"

definition trim :: "js_string \<Rightarrow> js_string" where
  "trim s = rev (dropWhile isSpace (rev (dropWhile isSpace s)))"

section \<open>Card number validation (CheckoutModal.tsx, isValidCreditCard)\<close>

text \<open>
  \<^verbatim>\<open>if (/[^0-9-\s]+/.test(value)) return false;\<close>
  The test succeeds when some code unit is neither a digit, nor the hyphen (45), nor
  white space.
\<close>

definition cardChar :: "nat \<Rightarrow> bool" where
  "cardChar c \<longleftrightarrow> isDigit c \<or> c = 45 \<or> isSpace c"

text \<open>\<^verbatim>\<open>parseInt(cDigit, 10)\<close> on a one-digit string.\<close>

definition parseDigit :: "nat \<Rightarrow> nat" where
  "parseDigit c = c - 48"

text \<open>
  The loop \<^verbatim>\<open>for (let n = newValue.length - 1; n >= 0; n--)\<close>. Its first argument is
  what remains to be visited, in the order the loop visits it (from the last code unit
  to the first); \<open>nCheck\<close> and \<open>bEven\<close> are the loop's variables.
\<close>

fun luhnLoop :: "js_string \<Rightarrow> nat \<Rightarrow> bool \<Rightarrow> nat" where
  "luhnLoop [] nCheck bEven = nCheck"
| "luhnLoop (cDigit # rest) nCheck bEven =
     (let nDigit = parseDigit cDigit;
          nDigit = (if bEven then (if nDigit * 2 > 9 then nDigit * 2 - 9 else nDigit * 2)
                    else nDigit)
      in luhnLoop rest (nCheck + nDigit) (\<not> bEven))"

definition isValidCreditCard :: "js_string \<Rightarrow> bool" where
  "isValidCreditCard value =
     (if list_ex (\<lambda>c. \<not> cardChar c) value then False
      else let newValue = filter isDigit value
           in if length newValue < 13 \<or> length newValue > 19 then False
              else luhnLoop (rev newValue) 0 False mod 10 = 0)"

subsection \<open>The check as the specification words it\<close>

text \<open>
  The specification: strip non-digits, require length 13 to 19, alternate-doubling
  checksum congruent to 0 modulo 10. The checksum runs over the digit values from the
  rightmost one: every second digit is doubled, and 9 is subtracted from a doubled
  digit above 9.
\<close>

definition doubled :: "nat \<Rightarrow> nat" where
  "doubled d = (if 2 * d > 9 then 2 * d - 9 else 2 * d)"

fun altDoublingSum :: "nat list \<Rightarrow> nat" where
  "altDoublingSum [] = 0"
| "altDoublingSum [d] = d"
| "altDoublingSum (d # e # ds) = d + doubled e + altDoublingSum ds"

definition specLuhn :: "js_string \<Rightarrow> bool" where
  "specLuhn value =
     (let digits = filter isDigit value
      in 13 \<le> length digits \<and> length digits \<le> 19 \<and>
         altDoublingSum (map parseDigit (rev digits)) mod 10 = 0)"

section \<open>Data model\<close>

text \<open>
  Modelled from the spec: the declarations of \<open>types.ts\<close> (Product, CartItem, Order,
  ShippingDetails, PaymentMethod, CardProvider, Category) are not among the sources.
  The fields are those the specification lists and the code reads. A JavaScript number
  that holds money is an exact rational here; a quantity is an integer. \<open>CartItem\<close> is
  \<open>Product\<close> with one more field, as \<^verbatim>\<open>{ ...product, quantity: 1 }\<close> builds it.
\<close>

datatype Category = ALL | CLOTHES | ART | ACCESSORIES | MISC

record Product =
  id_product :: js_string
  name :: js_string
  price :: rat
  currency :: js_string
  category :: Category
  description :: js_string
  detailedHistory :: js_string
  imageUrl :: js_string
  inStock :: bool

record CartItem = Product +
  quantity :: int

record ShippingDetails =
  firstName :: js_string
  lastName :: js_string
  email :: js_string
  phone :: js_string
  address :: js_string
  city :: js_string
  postalCode :: js_string
  country :: js_string

datatype PaymentMethod = credit_card | paypal | bank_transfer

datatype CardProvider = visa | mastercard | amex

datatype OrderStatus = pending | shipped

text \<open>
  An order in memory refers to the array object that was the cart (\<^verbatim>\<open>items: cart\<close>); a
  serialised order holds the lines themselves. The parameter \<open>'i\<close> is the type of the
  \<open>items\<close> field: a reference in memory, a list of lines in storage.
\<close>

record 'i Order =
  id_order :: js_string
  date :: js_string
  items :: 'i
  subtotal_order :: rat
  shippingCost_order :: rat
  duties :: rat
  total_order :: rat
  shippingDetails :: ShippingDetails
  paymentMethod_order :: PaymentMethod
  cardProvider_order :: "CardProvider option"
  language_order :: js_string
  status :: OrderStatus

section \<open>Cart handlers (App.tsx)\<close>

text \<open>
  Each handler passes an updater \<^verbatim>\<open>prev => ...\<close> to \<open>setCart\<close>. The updaters are
  functions from the previous array's lines to the lines of a new array.
\<close>

definition handleAddToCart :: "Product \<Rightarrow> CartItem list \<Rightarrow> CartItem list" where
  "handleAddToCart product prev =
     (case find (\<lambda>item. id_product item = id_product product) prev of
        Some existing \<Rightarrow>
          map (\<lambda>item. if id_product item = id_product product
                       then item\<lparr>quantity := quantity item + 1\<rparr> else item) prev
      | None \<Rightarrow> prev @ [Product.extend product (CartItem.fields 1)])"

definition handleUpdateCartQuantity :: "js_string \<Rightarrow> int \<Rightarrow> CartItem list \<Rightarrow> CartItem list" where
  "handleUpdateCartQuantity ident delta prev =
     map (\<lambda>item. if id_product item = ident
                  then item\<lparr>quantity := max 1 (quantity item + delta)\<rparr> else item) prev"

definition handleRemoveFromCart :: "js_string \<Rightarrow> CartItem list \<Rightarrow> CartItem list" where
  "handleRemoveFromCart ident prev = filter (\<lambda>item. id_product item \<noteq> ident) prev"

text \<open>The user's actions on the cart, and a session of them from the empty cart.\<close>

datatype CartAction =
  AddToCart Product
| UpdateQuantity js_string int
| RemoveFromCart js_string

fun cartUpdater :: "CartAction \<Rightarrow> CartItem list \<Rightarrow> CartItem list" where
  "cartUpdater (AddToCart product) = handleAddToCart product"
| "cartUpdater (UpdateQuantity ident delta) = handleUpdateCartQuantity ident delta"
| "cartUpdater (RemoveFromCart ident) = handleRemoveFromCart ident"

definition cartAfter :: "CartAction list \<Rightarrow> CartItem list" where
  "cartAfter actions = foldl (\<lambda>prev a. cartUpdater a prev) [] actions"

section \<open>Pricing (CheckoutModal.tsx)\<close>

definition subtotal :: "CartItem list \<Rightarrow> rat" where
  "subtotal cart = foldl (\<lambda>sum item. sum + price item * of_int (quantity item)) 0 cart"

definition shippingCost :: rat where
  "shippingCost = 25"

definition importDuties :: rat where
  "importDuties = 25 / 2"

definition total :: "CartItem list \<Rightarrow> rat" where
  "total cart = subtotal cart + shippingCost + importDuties"

section \<open>The state of the running application\<close>

text \<open>
  The arrays of cart lines live in the JavaScript heap and are reached through
  references: \<open>arrays\<close> gives the lines of each allocated array and \<open>fresh\<close> is the
  next unused reference. \<open>cart\<close> is the array held by the state variable of
  \<^verbatim>\<open>const [cart, setCart] = useState<CartItem[]>([])\<close>.
\<close>

type_synonym ref = nat

text \<open>The three private fields of \<^verbatim>\<open>class BackendService\<close> (services/backend.ts).\<close>

record BackendService =
  products :: "Product list"
  orders :: "ref Order list"
  subscribers :: "js_string list"

text \<open>
  What \<open>localStorage\<close> holds under a key: the text \<open>JSON.stringify\<close> made of the
  catalog, of the order history or of the subscriber list (kept as the value it encodes),
  or a plain string (a cached translation).
\<close>

datatype stored =
  Products "Product list"
| Orders "CartItem list Order list"
| Subscribers "js_string list"
| Text js_string

datatype CheckoutStep = shipping | payment | confirmation

text \<open>The state variables of the \<open>CheckoutModal\<close> component.\<close>

record CheckoutModal =
  step :: CheckoutStep
  paymentMethod :: PaymentMethod
  cardProvider :: CardProvider
  isProcessing :: bool
  processingStatus :: js_string
  shippingData :: "ShippingDetails option"
  orderRef :: js_string
  errors :: "js_string \<rightharpoonup> js_string"

record World =
  arrays :: "ref \<rightharpoonup> CartItem list"
  fresh :: ref
  cart :: ref
  backend :: BackendService
  localStorage :: "js_string \<rightharpoonup> stored"
  checkout :: CheckoutModal
  alerts :: "js_string list"

datatype error = ProductNotFound | QuotaExceededError

text \<open>The lines of an array; the references in use are allocated (see \<open>allocated\<close>).\<close>

definition deref :: "World \<Rightarrow> ref \<Rightarrow> CartItem list" where
  "deref w r = (case arrays w r of Some lines \<Rightarrow> lines | None \<Rightarrow> [])"

definition allocated :: "World \<Rightarrow> bool" where
  "allocated w \<longleftrightarrow> cart w < fresh w \<and> list_all (\<lambda>order. items order < fresh w) (orders (backend w))"

text \<open>
  \<^verbatim>\<open>setCart(prev => updater(prev))\<close>: the updaters of this program build a new array
  (\<open>map\<close>, \<open>filter\<close>, a spread literal, \<open>[]\<close>) and never write to \<open>prev\<close>; the new array
  becomes the state.
\<close>

definition setCart :: "(CartItem list \<Rightarrow> CartItem list) \<Rightarrow> World \<Rightarrow> World" where
  "setCart updater w =
     w\<lparr>arrays := (arrays w)(fresh w \<mapsto> updater (deref w (cart w))),
       cart := fresh w,
       fresh := Suc (fresh w)\<rparr>"

text \<open>\<^verbatim>\<open>handleCheckoutComplete\<close>: \<^verbatim>\<open>setCart([])\<close> (the toast is not modelled).\<close>

definition handleCheckoutComplete :: "World \<Rightarrow> World" where
  "handleCheckoutComplete w = setCart (\<lambda>prev. []) w"

section \<open>Backend facade (services/backend.ts)\<close>

definition KEYS_ORDERS :: js_string where
  "KEYS_ORDERS = js ''ethio_backend_orders''"

definition KEYS_PRODUCTS :: js_string where
  "KEYS_PRODUCTS = js ''ethio_backend_products''"

definition KEYS_SUBSCRIBERS :: js_string where
  "KEYS_SUBSCRIBERS = js ''ethio_backend_subscribers''"

text \<open>
  \<^verbatim>\<open>localStorage.setItem(key, value)\<close>. The browser may refuse a write (the quota is
  exceeded) and then \<open>setItem\<close> throws and stores nothing; \<open>accepted\<close> says which of the
  two happens. An operation returns its result or the exception, and the state it
  leaves behind in either case.
\<close>

definition setItem :: "bool \<Rightarrow> js_string \<Rightarrow> stored \<Rightarrow> World \<Rightarrow> (error + unit) \<times> World" where
  "setItem accepted key v w =
     (if accepted then (Inr (), w\<lparr>localStorage := (localStorage w)(key \<mapsto> v)\<rparr>)
      else (Inl QuotaExceededError, w))"

text \<open>\<open>JSON.stringify\<close> follows the reference of \<open>items\<close> and writes the lines out.\<close>

definition stringifyOrder :: "World \<Rightarrow> ref Order \<Rightarrow> CartItem list Order" where
  "stringifyOrder w order =
     \<lparr>id_order = id_order order, date = date order, items = deref w (items order),
      subtotal_order = subtotal_order order, shippingCost_order = shippingCost_order order,
      duties = duties order, total_order = total_order order,
      shippingDetails = shippingDetails order,
      paymentMethod_order = paymentMethod_order order,
      cardProvider_order = cardProvider_order order,
      language_order = language_order order, status = status order\<rparr>"

definition saveProducts :: "bool \<Rightarrow> World \<Rightarrow> (error + unit) \<times> World" where
  "saveProducts accepted w = setItem accepted KEYS_PRODUCTS (Products (products (backend w))) w"

definition saveOrders :: "bool \<Rightarrow> World \<Rightarrow> (error + unit) \<times> World" where
  "saveOrders accepted w =
     setItem accepted KEYS_ORDERS (Orders (map (stringifyOrder w) (orders (backend w)))) w"

definition saveSubscribers :: "bool \<Rightarrow> World \<Rightarrow> (error + unit) \<times> World" where
  "saveSubscribers accepted w =
     setItem accepted KEYS_SUBSCRIBERS (Subscribers (subscribers (backend w))) w"

definition getProducts :: "World \<Rightarrow> Product list" where
  "getProducts w = products (backend w)"

text \<open>
  \<open>addProduct\<close>: \<open>newId\<close> is the identifier made from the clock and a random number;
  the product given carries every other field.
\<close>

definition addProduct :: "bool \<Rightarrow> js_string \<Rightarrow> Product \<Rightarrow> World \<Rightarrow> (error + Product) \<times> World" where
  "addProduct accepted newId product w =
     (let newProduct = product\<lparr>id_product := newId\<rparr>;
          w1 = w\<lparr>backend := (backend w)\<lparr>products := newProduct # products (backend w)\<rparr>\<rparr>
      in case saveProducts accepted w1 of
           (Inl e, w2) \<Rightarrow> (Inl e, w2)
         | (Inr u, w2) \<Rightarrow> (Inr newProduct, w2))"

text \<open>\<open>Partial<Product>\<close>: each field is present or not.\<close>

record ProductUpdates =
  id_updates :: "js_string option"
  name_updates :: "js_string option"
  price_updates :: "rat option"
  currency_updates :: "js_string option"
  category_updates :: "Category option"
  description_updates :: "js_string option"
  detailedHistory_updates :: "js_string option"
  imageUrl_updates :: "js_string option"
  inStock_updates :: "bool option"

definition orElse :: "'a option \<Rightarrow> 'a \<Rightarrow> 'a" where
  "orElse new old = (case new of Some v \<Rightarrow> v | None \<Rightarrow> old)"

text \<open>\<^verbatim>\<open>{ ...this.products[index], ...updates }\<close>\<close>

definition mergeProduct :: "Product \<Rightarrow> ProductUpdates \<Rightarrow> Product" where
  "mergeProduct p updates =
     \<lparr>id_product = orElse (id_updates updates) (id_product p),
      name = orElse (name_updates updates) (name p),
      price = orElse (price_updates updates) (price p),
      currency = orElse (currency_updates updates) (currency p),
      category = orElse (category_updates updates) (category p),
      description = orElse (description_updates updates) (description p),
      detailedHistory = orElse (detailedHistory_updates updates) (detailedHistory p),
      imageUrl = orElse (imageUrl_updates updates) (imageUrl p),
      inStock = orElse (inStock_updates updates) (inStock p)\<rparr>"

fun findIndex :: "('a \<Rightarrow> bool) \<Rightarrow> 'a list \<Rightarrow> nat option" where
  "findIndex P [] = None"
| "findIndex P (x # xs) = (if P x then Some 0 else map_option Suc (findIndex P xs))"

definition updateProduct ::
  "bool \<Rightarrow> js_string \<Rightarrow> ProductUpdates \<Rightarrow> World \<Rightarrow> (error + Product) \<times> World" where
  "updateProduct accepted ident updates w =
     (case findIndex (\<lambda>p. id_product p = ident) (products (backend w)) of
        None \<Rightarrow> (Inl ProductNotFound, w)
      | Some index \<Rightarrow>
          (let merged = mergeProduct (products (backend w) ! index) updates;
               w1 = w\<lparr>backend := (backend w)\<lparr>products := (products (backend w))[index := merged]\<rparr>\<rparr>
           in case saveProducts accepted w1 of
                (Inl e, w2) \<Rightarrow> (Inl e, w2)
              | (Inr u, w2) \<Rightarrow> (Inr merged, w2)))"

definition deleteProduct :: "bool \<Rightarrow> js_string \<Rightarrow> World \<Rightarrow> (error + unit) \<times> World" where
  "deleteProduct accepted ident w =
     saveProducts accepted
       (w\<lparr>backend := (backend w)\<lparr>products := filter (\<lambda>p. id_product p \<noteq> ident) (products (backend w))\<rparr>\<rparr>)"

definition createOrder :: "bool \<Rightarrow> ref Order \<Rightarrow> World \<Rightarrow> (error + ref Order) \<times> World" where
  "createOrder accepted order w =
     (let w1 = w\<lparr>backend := (backend w)\<lparr>orders := order # orders (backend w)\<rparr>\<rparr>
      in case saveOrders accepted w1 of
           (Inl e, w2) \<Rightarrow> (Inl e, w2)
         | (Inr u, w2) \<Rightarrow> (Inr order, w2))"

definition getOrders :: "World \<Rightarrow> ref Order list" where
  "getOrders w = orders (backend w)"

definition clearOrders :: "bool \<Rightarrow> World \<Rightarrow> (error + unit) \<times> World" where
  "clearOrders accepted w = saveOrders accepted (w\<lparr>backend := (backend w)\<lparr>orders := []\<rparr>\<rparr>)"

definition addSubscriber :: "bool \<Rightarrow> js_string \<Rightarrow> World \<Rightarrow> (error + unit) \<times> World" where
  "addSubscriber accepted emailAddress w =
     (if emailAddress \<notin> set (subscribers (backend w))
      then saveSubscribers accepted
             (w\<lparr>backend := (backend w)\<lparr>subscribers := emailAddress # subscribers (backend w)\<rparr>\<rparr>)
      else (Inr (), w))"

definition getSubscribers :: "World \<Rightarrow> js_string list" where
  "getSubscribers w = subscribers (backend w)"

definition verifyAdminPin :: "js_string \<Rightarrow> bool" where
  "verifyAdminPin pin \<longleftrightarrow> pin = js ''1234''"

text \<open>The order service (services/orderService.ts) forwards to the backend.\<close>

definition saveOrder :: "bool \<Rightarrow> ref Order \<Rightarrow> World \<Rightarrow> (error + unit) \<times> World" where
  "saveOrder accepted order w =
     (case createOrder accepted order w of
        (Inl e, w') \<Rightarrow> (Inl e, w')
      | (Inr created, w') \<Rightarrow> (Inr (), w'))"

section \<open>Order submission (CheckoutModal.tsx, completeOrder)\<close>

text \<open>
  The order object literal of \<open>completeOrder\<close>. \<open>lang\<close> is the language of the
  \<open>useLanguage\<close> context and \<open>now\<close> the text of \<^verbatim>\<open>new Date().toISOString()\<close>. The
  component's \<open>cart\<close> property is the application's cart array; \<open>items\<close> receives the
  reference, and the totals are those computed from its lines.
\<close>

definition newOrder :: "js_string \<Rightarrow> js_string \<Rightarrow> ShippingDetails \<Rightarrow> World \<Rightarrow> ref Order" where
  "newOrder lang now details w =
     \<lparr>id_order = orderRef (checkout w), date = now, items = cart w,
      subtotal_order = subtotal (deref w (cart w)), shippingCost_order = shippingCost,
      duties = importDuties, total_order = total (deref w (cart w)),
      shippingDetails = details,
      paymentMethod_order = paymentMethod (checkout w),
      cardProvider_order =
        (if paymentMethod (checkout w) = credit_card then Some (cardProvider (checkout w)) else None),
      language_order = lang, status = pending\<rparr>"

definition gatewayError :: js_string where
  "gatewayError = js ''Payment Gateway Error: Unable to process. Please try again.''"

text \<open>
  \<open>completeOrder\<close>: nothing happens without shipping data; otherwise the order is saved,
  and then either the wizard moves to the confirmation step and \<open>onComplete\<close> empties
  the cart, or the exception is caught and an alert is shown.
\<close>

definition completeOrder :: "js_string \<Rightarrow> js_string \<Rightarrow> bool \<Rightarrow> World \<Rightarrow> World" where
  "completeOrder lang now accepted w =
     (case shippingData (checkout w) of
        None \<Rightarrow> w
      | Some details \<Rightarrow>
          (case saveOrder accepted (newOrder lang now details w) w of
             (Inr u, w') \<Rightarrow>
               handleCheckoutComplete
                 (w'\<lparr>checkout := (checkout w')\<lparr>isProcessing := False, processingStatus := [],
                                               step := confirmation\<rparr>\<rparr>)
           | (Inl e, w') \<Rightarrow>
               w'\<lparr>checkout := (checkout w')\<lparr>isProcessing := False, processingStatus := []\<rparr>,
                  alerts := gatewayError # alerts w'\<rparr>))"

section \<open>What can happen after an order was placed\<close>

text \<open>
  The operations that change the cart or the catalog: the three cart handlers, the
  emptying of the cart, and the three catalog operations of the backend (each with the
  fate of its storage write).
\<close>

datatype Event =
  OnCart CartAction
| EmptyCart
| AddProduct bool js_string Product
| UpdateProduct bool js_string ProductUpdates
| DeleteProduct bool js_string

fun perform :: "Event \<Rightarrow> World \<Rightarrow> World" where
  "perform (OnCart a) w = setCart (cartUpdater a) w"
| "perform EmptyCart w = handleCheckoutComplete w"
| "perform (AddProduct accepted newId product) w = snd (addProduct accepted newId product w)"
| "perform (UpdateProduct accepted ident updates) w = snd (updateProduct accepted ident updates w)"
| "perform (DeleteProduct accepted ident) w = snd (deleteProduct accepted ident w)"


section \<open>Translation (AutoTranslatedText.tsx, services/geminiService.ts)\<close>

text \<open>
  What the remote text-generation call does: it throws (no API key, transport or service
  failure; everything inside the \<open>try\<close> block), or it answers, and \<open>response.text\<close> is
  a string or undefined.
\<close>

datatype Remote = Failed | Responded "js_string option"

definition translateText :: "js_string \<Rightarrow> Remote \<Rightarrow> js_string option" where
  "translateText text remote =
     (if text = [] then None
      else case remote of
             Failed \<Rightarrow> None
           | Responded None \<Rightarrow> None
           | Responded (Some answer) \<Rightarrow>
               (let result = trim answer in if result = [] then None else Some result))"

text \<open>
  \<open>simpleHash\<close>: \<open>hash << 5\<close> and \<open>hash & hash\<close> work on 32-bit integers, so the hash is
  a 32-bit word read as a signed number.
\<close>

definition simpleHash :: "js_string \<Rightarrow> 32 word" where
  "simpleHash str = foldl (\<lambda>hash char. (push_bit 5 hash - hash) + of_nat char) 0 str"

fun showNat :: "nat \<Rightarrow> js_string" where
  "showNat n = (if n < 10 then [48 + n] else showNat (n div 10) @ [48 + n mod 10])"

declare showNat.simps [simp del]

definition showInt :: "int \<Rightarrow> js_string" where
  "showInt i = (if i < 0 then 45 # showNat (nat (- i)) else showNat (nat i))"

text \<open>\<^verbatim>\<open>`tr_v2_${language}_${contentHash}`\<close>\<close>

definition cacheKey :: "js_string \<Rightarrow> js_string \<Rightarrow> js_string" where
  "cacheKey lang value = js ''tr_v2_'' @ lang @ js ''_'' @ showInt (sint (simpleHash value))"

text \<open>
  The \<open>useLanguage\<close> context (i18n.tsx is not among the sources): the active language
  and the two lookups, which return a string or undefined.
\<close>

record I18n =
  language :: js_string
  getExactTranslation :: "js_string \<Rightarrow> js_string option"
  findBestTranslation :: "js_string \<Rightarrow> js_string option"

text \<open>The component's state variables and its \<open>mountedRef\<close>.\<close>

record AutoTranslatedText =
  translatedContent :: js_string
  isLoading :: bool
  mounted :: bool

text \<open>
  A condition \<^verbatim>\<open>if (s)\<close> on a string or undefined holds when \<open>s\<close> is defined and not
  empty; \<open>truthy\<close> returns the string in that case.
\<close>

definition truthy :: "js_string option \<Rightarrow> js_string option" where
  "truthy s = (case s of Some t \<Rightarrow> if t = [] then None else Some t | None \<Rightarrow> None)"

text \<open>
  \<^verbatim>\<open>localStorage.getItem(cacheKey)\<close>. The keys of cached translations start with
  \<open>tr_v2_\<close> and hold plain strings; the records of the backend are under other keys.
\<close>

definition getItem :: "(js_string \<rightharpoonup> stored) \<Rightarrow> js_string \<Rightarrow> js_string option" where
  "getItem storage key = (case storage key of Some (Text t) \<Rightarrow> Some t | _ \<Rightarrow> None)"

definition shown :: "js_string \<Rightarrow> AutoTranslatedText \<Rightarrow> AutoTranslatedText" where
  "shown content c = c\<lparr>translatedContent := content, isLoading := False\<rparr>"

text \<open>
  The effect that runs when the language or the value changes, up to the point where
  it calls \<open>translateText\<close>: the second component of the result says whether the remote
  call is made.
\<close>

definition exactMatch :: "I18n \<Rightarrow> js_string option \<Rightarrow> js_string option" where
  "exactMatch i18n translationKey =
     (case truthy translationKey of
        Some k \<Rightarrow> truthy (getExactTranslation i18n k)
      | None \<Rightarrow> None)"

definition resolve ::
  "I18n \<Rightarrow> js_string \<Rightarrow> js_string option \<Rightarrow> (js_string \<rightharpoonup> stored) \<Rightarrow>
   AutoTranslatedText \<Rightarrow> AutoTranslatedText \<times> bool" where
  "resolve i18n value translationKey storage c =
     (if value = [] then (c, False)
      else if language i18n = js ''en'' then (shown value c, False)
      else case exactMatch i18n translationKey of
        Some exact \<Rightarrow> (shown exact c, False)
      | None \<Rightarrow>
     (case truthy (findBestTranslation i18n value) of
        Some memoryMatch \<Rightarrow> (shown memoryMatch c, False)
      | None \<Rightarrow>
     (case truthy (getItem storage (cacheKey (language i18n) value)) of
        Some cached \<Rightarrow> (shown cached c, False)
      | None \<Rightarrow> (c\<lparr>isLoading := True\<rparr>, True))))"

text \<open>
  The continuation \<^verbatim>\<open>.then((result) => ...)\<close> with its \<^verbatim>\<open>.catch\<close>: \<open>result\<close> is what
  \<open>translateText\<close> returned, \<open>accepted\<close> the fate of the cache write. A refused write
  throws inside \<open>then\<close>, and \<open>catch\<close> shows the source text.
\<close>

definition translated ::
  "js_string \<Rightarrow> js_string \<Rightarrow> bool \<Rightarrow> js_string option \<Rightarrow>
   AutoTranslatedText \<times> (js_string \<rightharpoonup> stored) \<Rightarrow> AutoTranslatedText \<times> (js_string \<rightharpoonup> stored)" where
  "translated lang value accepted result cs =
     (case cs of (c, storage) \<Rightarrow>
        if \<not> mounted c then (c, storage)
        else case truthy result of
          None \<Rightarrow> (shown value c, storage)
        | Some r \<Rightarrow>
            if r \<noteq> value
            then (if accepted then (shown r c, storage(cacheKey lang value \<mapsto> Text r))
                  else (shown value c, storage))
            else (shown value c, storage))"

text \<open>
  One request from the effect to the end of the continuation. \<open>unmounts\<close> says whether
  the component is unmounted while the remote call is outstanding.
\<close>

definition request ::
  "I18n \<Rightarrow> js_string \<Rightarrow> js_string option \<Rightarrow> Remote \<Rightarrow> bool \<Rightarrow> bool \<Rightarrow>
   AutoTranslatedText \<times> (js_string \<rightharpoonup> stored) \<Rightarrow> AutoTranslatedText \<times> (js_string \<rightharpoonup> stored)" where
  "request i18n value translationKey remote unmounts accepted cs =
     (case cs of (c, storage) \<Rightarrow>
        (case resolve i18n value translationKey storage c of
           (c', False) \<Rightarrow> (c', storage)
         | (c', True) \<Rightarrow>
             translated (language i18n) value accepted (translateText value remote)
               (if unmounts then c'\<lparr>mounted := False\<rparr> else c', storage)))"

section \<open>A first run, and example data\<close>

text \<open>
  The application right after its first load with an empty \<open>localStorage\<close>: the
  backend's constructor has seeded the catalog (the parameter stands for
  \<open>MOCK_PRODUCTS\<close> of \<open>constants.ts\<close>, which is not among the sources) and saved it, there
  are no orders and no subscribers, the cart is a new empty array, and the checkout
  wizard has its initial state.
\<close>

definition firstRun :: "Product list \<Rightarrow> World" where
  "firstRun seed =
     \<lparr>arrays = [0 \<mapsto> []], fresh = 1, cart = 0,
      backend = \<lparr>products = seed, orders = [], subscribers = []\<rparr>,
      localStorage = [KEYS_PRODUCTS \<mapsto> Products seed],
      checkout = \<lparr>step = shipping, paymentMethod = credit_card, cardProvider = visa,
                  isProcessing = False, processingStatus = [], shippingData = None,
                  orderRef = [], errors = Map.empty\<rparr>,
      alerts = []\<rparr>"

definition coffeePot :: Product where
  "coffeePot =
     \<lparr>id_product = js ''1'', name = js ''Jebena Coffee Pot'', price = 100,
      currency = js ''EUR'', category = ACCESSORIES, description = js ''Clay coffee pot'',
      detailedHistory = js ''Used in the coffee ceremony'', imageUrl = js ''/jebena.jpg'',
      inStock = True\<rparr>"

definition customer :: ShippingDetails where
  "customer =
     \<lparr>firstName = js ''Abebe'', lastName = js ''Bikila'', email = js ''abebe@example.org'',
      phone = js ''+32 2 555 01 00'', address = js ''Rue de la Loi 1'', city = js ''Brussels'',
      postalCode = js ''1000'', country = js ''Belgium''\<rparr>"

text \<open>
  A customer at the payment step: one coffee pot in the cart, the shipping form
  submitted (\<open>handleShippingSubmit\<close>), the order reference drawn when the wizard opened.
\<close>

definition atPayment :: World where
  "atPayment =
     (let w = setCart (handleAddToCart coffeePot) (firstRun [coffeePot])
      in w\<lparr>checkout := (checkout w)\<lparr>step := payment, shippingData := Some customer,
                                       orderRef := js ''ETH-4711''\<rparr>\<rparr>)"

text \<open>The order that \<open>completeOrder\<close> builds for that customer at a given time.\<close>

definition sampleOrder :: "ref Order" where
  "sampleOrder = newOrder (js ''en'') (js ''2025-01-01T10:00:00.000Z'') customer atPayment"

definition french :: I18n where
  "french = \<lparr>language = js ''fr'', getExactTranslation = (\<lambda>k. None),
             findBestTranslation = (\<lambda>v. None)\<rparr>"

definition freshText :: "js_string \<Rightarrow> AutoTranslatedText" where
  "freshText value = \<lparr>translatedContent = value, isLoading = False, mounted = True\<rparr>"

text \<open>Subscribing a list of addresses one after the other, every write accepted.\<close>

definition subscribeAll :: "js_string list \<Rightarrow> World \<Rightarrow> World" where
  "subscribeAll emails w = foldl (\<lambda>w' e. snd (addSubscriber True e w')) w emails"

section \<open>Properties of the card number validation\<close>

lemma luhnLoop_altDoublingSum:
  "luhnLoop cs n False = n + altDoublingSum (map parseDigit cs)"
proof (induction cs arbitrary: n rule: induct_list012)
  case 1
  show ?case by simp
next
  case (2 c)
  show ?case by simp
next
  case (3 c c' cs)
  have "luhnLoop (c # c' # cs) n False =
        luhnLoop cs (n + parseDigit c + doubled (parseDigit c')) False"
    by (simp add: doubled_def mult.commute)
  also have "\<dots> = n + parseDigit c + doubled (parseDigit c') + altDoublingSum (map parseDigit cs)"
    by (rule "3.IH"(1))
  finally show ?case by simp
qed

lemma isValidCreditCard_iff:
  "isValidCreditCard value \<longleftrightarrow> list_all cardChar value \<and> specLuhn value"
  by (auto simp: isValidCreditCard_def specLuhn_def Let_def luhnLoop_altDoublingSum
      list_ex_iff list_all_iff)

text \<open>
  C3 (as stated): the validator accepts exactly when the digits that remain after
  stripping number 13 to 19 and pass the alternate-doubling checksum. This fails: the
  validator first rejects every input that holds a code unit other than a digit, a
  hyphen or white space. With dots as separators the stripped digits pass the check of
  the specification, and the validator rejects the input.
\<close>

theorem card_separator_counterexample:
  "specLuhn (js ''4539.1488.0343.6467'') \<and> \<not> isValidCreditCard (js ''4539.1488.0343.6467'')"
  by (simp add: isValidCreditCard_def specLuhn_def js_def cardChar_def isDigit_def
      isSpace_def parseDigit_def doubled_def)

text \<open>
  C3 (amended): the validator accepts exactly the inputs made of digits, hyphens and
  white space only whose digits number 13 to 19 and have an alternate-doubling checksum
  congruent to 0 modulo 10; 4539148803436467 is accepted and 4539148803436468 is
  rejected.
\<close>

theorem card_validation:
  "(isValidCreditCard value \<longleftrightarrow> list_all cardChar value \<and> specLuhn value) \<and>
   isValidCreditCard (js ''4539148803436467'') \<and>
   \<not> isValidCreditCard (js ''4539148803436468'')"
proof -
  have "isValidCreditCard (js ''4539148803436467'')"
    by (simp add: isValidCreditCard_def js_def cardChar_def isDigit_def isSpace_def parseDigit_def)
  moreover have "\<not> isValidCreditCard (js ''4539148803436468'')"
    by (simp add: isValidCreditCard_def js_def cardChar_def isDigit_def isSpace_def parseDigit_def)
  ultimately show ?thesis
    by (simp add: isValidCreditCard_iff)
qed

theorem card_validation_witness:
  "list_all cardChar (js ''4539 1488-0343 6467'') \<and> specLuhn (js ''4539 1488-0343 6467'') \<and>
   isValidCreditCard (js ''4539 1488-0343 6467'')"
  using card_validation [of "js ''4539 1488-0343 6467''"]
  by (simp add: specLuhn_def js_def cardChar_def isDigit_def isSpace_def parseDigit_def
      doubled_def)

section \<open>Properties of the pricing\<close>




section \<open>Properties of the cart handlers\<close>

lemma ids_handleAddToCart:
  "map id_product (handleAddToCart product prev) =
     (if id_product product \<in> set (map id_product prev) then map id_product prev
      else map id_product prev @ [id_product product])"
proof (cases "find (\<lambda>item. id_product item = id_product product) prev")
  case None
  then have "id_product product \<notin> set (map id_product prev)"
    by (auto simp: find_None_iff)
  with None show ?thesis
    by (simp add: handleAddToCart_def Product.defs CartItem.defs)
next
  case (Some existing)
  then have "find (\<lambda>item. id_product item = id_product product) prev \<noteq> None"
    by simp
  then obtain x where "x \<in> set prev" "id_product product = id_product x"
    by (auto simp: find_None_iff)
  then have "id_product product \<in> set (map id_product prev)"
    by simp
  moreover have "map id_product (map (\<lambda>item. if id_product item = id_product product
                       then item\<lparr>quantity := quantity item + 1\<rparr> else item) prev) = map id_product prev"
    by (induction prev) simp_all
  ultimately show ?thesis using Some
    by (simp add: handleAddToCart_def)
qed

lemma ids_handleUpdateCartQuantity:
  "map id_product (handleUpdateCartQuantity ident delta prev) = map id_product prev"
  by (induction prev) (simp_all add: handleUpdateCartQuantity_def)

lemma ids_handleRemoveFromCart:
  "map id_product (handleRemoveFromCart ident prev) = filter (\<lambda>i. i \<noteq> ident) (map id_product prev)"
  by (induction prev) (simp_all add: handleRemoveFromCart_def)

lemma distinct_cartUpdater:
  "distinct (map id_product prev) \<Longrightarrow> distinct (map id_product (cartUpdater a prev))"
  by (cases a) (simp_all add: ids_handleAddToCart ids_handleUpdateCartQuantity ids_handleRemoveFromCart)

lemma distinct_foldl_cartUpdater:
  "distinct (map id_product prev) \<Longrightarrow>
   distinct (map id_product (foldl (\<lambda>prev a. cartUpdater a prev) prev actions))"
  by (induction actions arbitrary: prev) (simp_all add: distinct_cartUpdater)

lemma distinct_cartAfter: "distinct (map id_product (cartAfter actions))"
  by (simp add: cartAfter_def distinct_foldl_cartUpdater)

lemma cartAfter_snoc: "cartAfter (actions @ [a]) = cartUpdater a (cartAfter actions)"
  by (simp add: cartAfter_def)

lemma handleAddToCart_present:
  "id_product product \<in> set (map id_product prev) \<Longrightarrow>
   handleAddToCart product prev =
     map (\<lambda>item. if id_product item = id_product product
                  then item\<lparr>quantity := quantity item + 1\<rparr> else item) prev"
proof -
  assume "id_product product \<in> set (map id_product prev)"
  then have "find (\<lambda>item. id_product item = id_product product) prev \<noteq> None"
    by (auto simp: find_None_iff)
  then show ?thesis by (auto simp: handleAddToCart_def)
qed

text \<open>
  C7: after any sequence of add-to-cart, remove and update-quantity operations the cart
  holds at most one line per product id (the ids of its lines are pairwise distinct);
  adding a product that is already in the cart gives the same lines with the quantity
  of that product's line incremented by 1, and no new line.
\<close>

theorem cart_one_line_per_product:
  "distinct (map id_product (cartAfter actions)) \<and>
   (id_product product \<in> set (map id_product (cartAfter actions)) \<longrightarrow>
      cartAfter (actions @ [AddToCart product]) =
        map (\<lambda>item. if id_product item = id_product product
                     then item\<lparr>quantity := quantity item + 1\<rparr> else item) (cartAfter actions) \<and>
      length (cartAfter (actions @ [AddToCart product])) = length (cartAfter actions) \<and>
      map id_product (cartAfter (actions @ [AddToCart product])) = map id_product (cartAfter actions))"
  by (simp add: distinct_cartAfter cartAfter_snoc handleAddToCart_present ids_handleAddToCart
      del: set_map)

theorem cart_one_line_per_product_witness:
  "id_product coffeePot \<in> set (map id_product (cartAfter [AddToCart coffeePot])) \<and>
   map quantity (cartAfter ([AddToCart coffeePot] @ [AddToCart coffeePot])) = [2] \<and>
   length (cartAfter ([AddToCart coffeePot] @ [AddToCart coffeePot])) = 1"
proof -
  have c: "cartAfter [AddToCart coffeePot] = [Product.extend coffeePot (CartItem.fields 1)]"
    by (simp add: cartAfter_def handleAddToCart_def)
  have i: "id_product coffeePot \<in> set (map id_product (cartAfter [AddToCart coffeePot]))"
    by (simp add: c Product.defs CartItem.defs)
  from cart_one_line_per_product [of "[AddToCart coffeePot]" coffeePot] i
  show ?thesis
    by (simp add: c Product.defs CartItem.defs)
qed

section \<open>Properties of the backend facade\<close>

lemmas backend_defs = setItem_def saveProducts_def saveOrders_def saveSubscribers_def
  getProducts_def getOrders_def getSubscribers_def

lemma KEYS_distinct:
  "KEYS_ORDERS \<noteq> KEYS_PRODUCTS" "KEYS_ORDERS \<noteq> KEYS_SUBSCRIBERS" "KEYS_PRODUCTS \<noteq> KEYS_SUBSCRIBERS"
  "KEYS_PRODUCTS \<noteq> KEYS_ORDERS" "KEYS_SUBSCRIBERS \<noteq> KEYS_ORDERS" "KEYS_SUBSCRIBERS \<noteq> KEYS_PRODUCTS"
  by (simp_all add: KEYS_ORDERS_def KEYS_PRODUCTS_def KEYS_SUBSCRIBERS_def js_def)

text \<open>
  C10: \<open>clearOrders\<close> empties only the order history. Whatever the fate of its storage
  write, \<open>getOrders\<close> returns the empty list afterwards, and the catalog and the
  subscriber list are as before, in memory and in storage; when the write is accepted
  the operation returns normally and the stored order history is empty too.
\<close>

theorem clearOrders_frame:
  "getOrders (snd (clearOrders accepted w)) = [] \<and>
   getProducts (snd (clearOrders accepted w)) = getProducts w \<and>
   getSubscribers (snd (clearOrders accepted w)) = getSubscribers w \<and>
   localStorage (snd (clearOrders accepted w)) KEYS_PRODUCTS = localStorage w KEYS_PRODUCTS \<and>
   localStorage (snd (clearOrders accepted w)) KEYS_SUBSCRIBERS = localStorage w KEYS_SUBSCRIBERS \<and>
   fst (clearOrders True w) = Inr () \<and>
   localStorage (snd (clearOrders True w)) KEYS_ORDERS = Some (Orders [])"
  by (simp add: clearOrders_def backend_defs KEYS_distinct)




lemma addSubscriber_present:
  "emailAddress \<in> set (getSubscribers w) \<Longrightarrow> addSubscriber accepted emailAddress w = (Inr (), w)"
  by (simp add: addSubscriber_def getSubscribers_def)

lemma addSubscriber_new:
  "emailAddress \<notin> set (getSubscribers w) \<Longrightarrow>
   getSubscribers (snd (addSubscriber accepted emailAddress w)) = emailAddress # getSubscribers w"
  by (simp add: addSubscriber_def backend_defs)

lemma getSubscribers_addSubscriber:
  "getSubscribers (snd (addSubscriber accepted e w)) =
     (if e \<in> set (getSubscribers w) then getSubscribers w else e # getSubscribers w)"
  by (simp add: addSubscriber_present addSubscriber_new)

lemma remdups_snoc: "remdups (ys @ [e]) = filter (\<lambda>x. x \<noteq> e) (remdups ys) @ [e]"
  by (induction ys) auto

lemma getSubscribers_subscribeAll:
  "getSubscribers (subscribeAll emails w) =
     filter (\<lambda>e. e \<notin> set (getSubscribers w)) (remdups (rev emails)) @ getSubscribers w"
proof (induction emails arbitrary: w)
  case Nil
  show ?case by (simp add: subscribeAll_def)
next
  case (Cons e emails)
  let ?w = "snd (addSubscriber True e w)"
  have step: "subscribeAll (e # emails) w = subscribeAll emails ?w"
    by (simp add: subscribeAll_def)
  have rd: "remdups (rev emails @ [e]) = filter (\<lambda>x. x \<noteq> e) (remdups (rev emails)) @ [e]"
    by (rule remdups_snoc)
  show ?case
  proof (cases "e \<in> set (getSubscribers w)")
    case True
    then have "getSubscribers ?w = getSubscribers w"
      by (simp add: getSubscribers_addSubscriber)
    with True show ?thesis
      by (auto simp: step Cons.IH rd intro!: filter_cong)
  next
    case False
    then have "getSubscribers ?w = e # getSubscribers w"
      by (simp add: getSubscribers_addSubscriber)
    with False show ?thesis
      by (auto simp: step Cons.IH rd intro!: filter_cong)
  qed
qed

text \<open>
  C9 (as stated): \<open>getSubscribers\<close> returns the subscribers in insertion order. This
  fails: \<open>addSubscriber\<close> puts a new address at the front (\<open>unshift\<close>), so after a@ and
  then b@ were added the list is b@, a@.
\<close>

theorem subscribers_order_counterexample:
  "getSubscribers (snd (addSubscriber True (js ''b@example.org'')
      (snd (addSubscriber True (js ''a@example.org'') (firstRun [])))))
     = [js ''b@example.org'', js ''a@example.org''] \<and>
   getSubscribers (snd (addSubscriber True (js ''b@example.org'')
      (snd (addSubscriber True (js ''a@example.org'') (firstRun [])))))
     \<noteq> [js ''a@example.org'', js ''b@example.org'']"
  by (simp add: getSubscribers_addSubscriber) (simp add: getSubscribers_def firstRun_def js_def)

text \<open>
  C9 (amended): \<open>addSubscriber\<close> deduplicates by exact, case-sensitive string equality:
  adding an address that is present changes nothing, an address that is absent (also
  one that differs from a present one only in case) is stored, at the front; so
  \<open>getSubscribers\<close> returns the subscribers newest first, in reverse insertion order.
\<close>

theorem addSubscriber_dedup_newest_first:
  "(emailAddress \<in> set (getSubscribers w) \<longrightarrow>
      addSubscriber accepted emailAddress w = (Inr (), w)) \<and>
   (emailAddress \<notin> set (getSubscribers w) \<longrightarrow>
      getSubscribers (snd (addSubscriber accepted emailAddress w)) = emailAddress # getSubscribers w) \<and>
   getSubscribers (subscribeAll emails w) =
     filter (\<lambda>e. e \<notin> set (getSubscribers w)) (remdups (rev emails)) @ getSubscribers w"
  by (simp add: addSubscriber_present addSubscriber_new getSubscribers_subscribeAll)

theorem addSubscriber_dedup_newest_first_witness:
  "js ''a@example.org'' \<notin> set (getSubscribers (firstRun [])) \<and>
   getSubscribers (subscribeAll
      [js ''a@example.org'', js ''A@example.org'', js ''a@example.org'', js ''b@example.org'']
      (firstRun [])) =
     [js ''b@example.org'', js ''A@example.org'', js ''a@example.org'']"
proof -
  have e: "getSubscribers (firstRun []) = []"
    by (simp add: getSubscribers_def firstRun_def)
  from addSubscriber_dedup_newest_first [of "js ''a@example.org''" "firstRun []" True
      "[js ''a@example.org'', js ''A@example.org'', js ''a@example.org'', js ''b@example.org'']"]
  show ?thesis
    by (simp add: e) (simp add: js_def)
qed

section \<open>Properties of order creation\<close>

lemma stringifyOrder_backend [simp]:
  "stringifyOrder (w\<lparr>backend := b\<rparr>) = stringifyOrder w"
  by (rule ext) (simp add: stringifyOrder_def deref_def)

lemma saveOrder_accepted:
  "saveOrder True order w =
     (Inr (), w\<lparr>backend := (backend w)\<lparr>orders := order # orders (backend w)\<rparr>,
                localStorage := (localStorage w)(KEYS_ORDERS \<mapsto>
                   Orders (map (stringifyOrder w) (order # orders (backend w))))\<rparr>)"
  by (simp add: saveOrder_def createOrder_def saveOrders_def setItem_def Let_def)

lemma saveOrder_refused:
  "saveOrder False order w =
     (Inl QuotaExceededError, w\<lparr>backend := (backend w)\<lparr>orders := order # orders (backend w)\<rparr>\<rparr>)"
  by (simp add: saveOrder_def createOrder_def saveOrders_def setItem_def Let_def)

lemma completeOrder_accepted:
  "shippingData (checkout w) = Some details \<Longrightarrow>
   completeOrder lang now True w =
     w\<lparr>arrays := (arrays w)(fresh w \<mapsto> []), cart := fresh w, fresh := Suc (fresh w),
       backend := (backend w)\<lparr>orders := newOrder lang now details w # orders (backend w)\<rparr>,
       localStorage := (localStorage w)(KEYS_ORDERS \<mapsto>
          Orders (map (stringifyOrder w) (newOrder lang now details w # orders (backend w)))),
       checkout := (checkout w)\<lparr>isProcessing := False, processingStatus := [], step := confirmation\<rparr>\<rparr>"
  by (simp add: completeOrder_def saveOrder_accepted handleCheckoutComplete_def setCart_def deref_def)

lemma completeOrder_refused:
  "shippingData (checkout w) = Some details \<Longrightarrow>
   completeOrder lang now False w =
     w\<lparr>backend := (backend w)\<lparr>orders := newOrder lang now details w # orders (backend w)\<rparr>,
       checkout := (checkout w)\<lparr>isProcessing := False, processingStatus := []\<rparr>,
       alerts := gatewayError # alerts w\<rparr>"
  by (simp add: completeOrder_def saveOrder_refused)

subsection \<open>What the cart handlers and the catalog operations leave alone\<close>


lemma saveProducts_snd:
  "snd (saveProducts a w) =
     (if a then w\<lparr>localStorage := (localStorage w)(KEYS_PRODUCTS \<mapsto> Products (products (backend w)))\<rparr>
      else w)"
  by (simp add: saveProducts_def setItem_def)

lemma snd_case_sum:
  "snd (case r of (Inl e, w2) \<Rightarrow> (Inl e, w2) | (Inr u, w2) \<Rightarrow> (Inr (f u), w2)) = snd r"
  by (cases r; cases "fst r") auto

lemma addProduct_snd:
  "snd (addProduct a n p w) =
     snd (saveProducts a (w\<lparr>backend := (backend w)\<lparr>products := p\<lparr>id_product := n\<rparr> # products (backend w)\<rparr>\<rparr>))"
  unfolding addProduct_def Let_def by (rule snd_case_sum)

lemma updateProduct_snd:
  "snd (updateProduct a i u w) =
     (case findIndex (\<lambda>p. id_product p = i) (products (backend w)) of
        None \<Rightarrow> w
      | Some index \<Rightarrow>
          snd (saveProducts a (w\<lparr>backend := (backend w)\<lparr>products :=
                 (products (backend w))[index := mergeProduct (products (backend w) ! index) u]\<rparr>\<rparr>)))"
  unfolding updateProduct_def Let_def by (simp add: snd_case_sum split: option.split)

lemma deleteProduct_snd:
  "snd (deleteProduct a i w) =
     snd (saveProducts a (w\<lparr>backend := (backend w)\<lparr>products :=
            filter (\<lambda>p. id_product p \<noteq> i) (products (backend w))\<rparr>\<rparr>))"
  by (simp add: deleteProduct_def)

lemmas catalog_snd = addProduct_snd updateProduct_snd deleteProduct_snd saveProducts_snd

lemma catalog_frame:
  "orders (backend (snd (addProduct a n p w))) = orders (backend w)"
  "orders (backend (snd (updateProduct a i u w))) = orders (backend w)"
  "orders (backend (snd (deleteProduct a i w))) = orders (backend w)"
  "localStorage (snd (addProduct a n p w)) KEYS_ORDERS = localStorage w KEYS_ORDERS"
  "localStorage (snd (updateProduct a i u w)) KEYS_ORDERS = localStorage w KEYS_ORDERS"
  "localStorage (snd (deleteProduct a i w)) KEYS_ORDERS = localStorage w KEYS_ORDERS"
  by (simp_all add: catalog_snd KEYS_distinct split: option.split)

lemma catalog_heap:
  "arrays (snd (addProduct a n p w)) = arrays w"
  "arrays (snd (updateProduct a i u w)) = arrays w"
  "arrays (snd (deleteProduct a i w)) = arrays w"
  "fresh (snd (addProduct a n p w)) = fresh w"
  "fresh (snd (updateProduct a i u w)) = fresh w"
  "fresh (snd (deleteProduct a i w)) = fresh w"
  "cart (snd (addProduct a n p w)) = cart w"
  "cart (snd (updateProduct a i u w)) = cart w"
  "cart (snd (deleteProduct a i w)) = cart w"
  by (simp_all add: catalog_snd split: option.split)











subsection \<open>The references in use are allocated\<close>

text \<open>
  \<open>allocated\<close> holds at the first run and is kept by every operation, so it holds in
  every state the application reaches.
\<close>

lemma allocated_firstRun: "allocated (firstRun seed)"
  by (simp add: allocated_def firstRun_def)

lemma allocated_setCart: "allocated w \<Longrightarrow> allocated (setCart f w)"
  by (auto simp: allocated_def setCart_def list_all_iff)

lemma allocated_catalog:
  "allocated w \<Longrightarrow> allocated (snd (addProduct a n p w))"
  "allocated w \<Longrightarrow> allocated (snd (updateProduct a i u w))"
  "allocated w \<Longrightarrow> allocated (snd (deleteProduct a i w))"
  by (simp_all add: allocated_def catalog_frame catalog_heap)

lemma allocated_perform: "allocated w \<Longrightarrow> allocated (perform e w)"
  by (cases e) (simp_all add: allocated_setCart allocated_catalog handleCheckoutComplete_def)

lemma allocated_completeOrder: "allocated w \<Longrightarrow> allocated (completeOrder lang now accepted w)"
proof (cases "shippingData (checkout w)")
  case None
  assume "allocated w"
  with None show ?thesis by (simp add: completeOrder_def)
next
  case (Some details)
  assume a: "allocated w"
  show ?thesis
  proof (cases accepted)
    case True
    with a show ?thesis
      by (auto simp: completeOrder_accepted [OF Some] allocated_def newOrder_def list_all_iff)
  next
    case False
    with a show ?thesis
      by (auto simp: completeOrder_refused [OF Some] allocated_def newOrder_def list_all_iff)
  qed
qed

subsection \<open>The example customer\<close>

lemma atPayment_facts:
  "getOrders atPayment = []"
  "shippingData (checkout atPayment) = Some customer"
  "step (checkout atPayment) = payment"
  "allocated atPayment"
  "cart atPayment = 1"
  "fresh atPayment = 2"
  by (simp_all add: atPayment_def firstRun_def setCart_def Let_def getOrders_def allocated_def)


lemma getOrders_createOrder: "getOrders (snd (createOrder accepted order w)) = order # getOrders w"
  by (cases accepted) (simp_all add: createOrder_def saveOrders_def setItem_def getOrders_def Let_def)

lemma fst_createOrder:
  "fst (createOrder accepted order w) = (if accepted then Inr order else Inl QuotaExceededError)"
  by (simp add: createOrder_def saveOrders_def setItem_def Let_def)




section \<open>Properties of a failed order submission\<close>

text \<open>
  C6 (as stated): a failed \<open>createOrder\<close> leaves the backend's order store unchanged,
  in memory and in storage. This fails for the order list in memory: \<open>createOrder\<close>
  puts the order in the list before it writes to storage, and nothing takes it out
  when the write throws.
\<close>

theorem failed_createOrder_counterexample:
  "fst (createOrder False sampleOrder atPayment) = Inl QuotaExceededError \<and>
   getOrders atPayment = [] \<and>
   getOrders (snd (createOrder False sampleOrder atPayment)) = [sampleOrder]"
  by (simp add: getOrders_createOrder fst_createOrder atPayment_facts)

text \<open>
  C6 (amended): if \<open>createOrder\<close> fails at the payment step (the storage write is
  refused), the wizard has not moved to the confirmation: it stays at the payment step
  with the shipping data, the payment method, the order reference and the cart as they
  were, it is no longer processing, an alert is shown, and completing the order again
  with the write accepted reaches the confirmation. Storage, the catalog and the
  subscribers are unchanged; the order list in memory, however, already holds the new
  order.
\<close>

theorem failed_order_keeps_wizard:
  assumes sd: "shippingData (checkout w) = Some details"
    and st: "step (checkout w) = payment"
  shows
  "fst (saveOrder False (newOrder lang now details w) w) = Inl QuotaExceededError \<and>
   checkout (completeOrder lang now False w) =
     (checkout w)\<lparr>isProcessing := False, processingStatus := []\<rparr> \<and>
   step (checkout (completeOrder lang now False w)) = payment \<and>
   shippingData (checkout (completeOrder lang now False w)) = Some details \<and>
   alerts (completeOrder lang now False w) = gatewayError # alerts w \<and>
   cart (completeOrder lang now False w) = cart w \<and>
   arrays (completeOrder lang now False w) = arrays w \<and>
   localStorage (completeOrder lang now False w) = localStorage w \<and>
   getProducts (completeOrder lang now False w) = getProducts w \<and>
   getSubscribers (completeOrder lang now False w) = getSubscribers w \<and>
   getOrders (completeOrder lang now False w) = newOrder lang now details w # getOrders w \<and>
   step (checkout (completeOrder lang later True (completeOrder lang now False w))) = confirmation"
proof -
  let ?w' = "completeOrder lang now False w"
  note cr = completeOrder_refused [OF sd, of lang now]
  have failed: "fst (saveOrder False (newOrder lang now details w) w) = Inl QuotaExceededError"
    by (simp add: saveOrder_refused)
  have wizard: "checkout ?w' = (checkout w)\<lparr>isProcessing := False, processingStatus := []\<rparr>"
    by (simp add: cr)
  have stays: "step (checkout ?w') = payment"
    by (simp add: wizard st)
  have sd': "shippingData (checkout ?w') = Some details"
    by (simp add: wizard sd)
  have alert: "alerts ?w' = gatewayError # alerts w"
    by (simp add: cr)
  have heap: "cart ?w' = cart w \<and> arrays ?w' = arrays w"
    by (simp add: cr)
  have storage: "localStorage ?w' = localStorage w"
    by (simp add: cr)
  have others: "getProducts ?w' = getProducts w \<and> getSubscribers ?w' = getSubscribers w"
    by (simp add: cr getProducts_def getSubscribers_def)
  have mirror: "getOrders ?w' = newOrder lang now details w # getOrders w"
    by (simp add: cr getOrders_def)
  have retry: "step (checkout (completeOrder lang later True ?w')) = confirmation"
    by (subst completeOrder_accepted [OF sd']) simp
  from failed wizard stays sd' alert heap [THEN conjunct1] heap [THEN conjunct2] storage
    others [THEN conjunct1] others [THEN conjunct2] mirror retry
  show ?thesis
    by (intro conjI) assumption+
qed

theorem failed_order_keeps_wizard_witness:
  "shippingData (checkout atPayment) = Some customer \<and> step (checkout atPayment) = payment \<and>
   step (checkout (completeOrder (js ''en'') (js ''2025-01-01T10:00:00.000Z'') False atPayment)) = payment \<and>
   localStorage (completeOrder (js ''en'') (js ''2025-01-01T10:00:00.000Z'') False atPayment) = localStorage atPayment \<and>
   getOrders (completeOrder (js ''en'') (js ''2025-01-01T10:00:00.000Z'') False atPayment) = [sampleOrder]"
  using failed_order_keeps_wizard [OF atPayment_facts(2) atPayment_facts(3), of "js ''en''" "js ''2025-01-01T10:00:00.000Z''"]
  by (simp add: sampleOrder_def [symmetric] atPayment_facts)

section \<open>Properties of the translation pipeline\<close>

lemma resolve_storage_only:
  "snd (resolve i18n value key storage c) = snd (resolve i18n value key storage c')"
  by (simp add: resolve_def split: option.split)

lemma resolve_remote:
  "snd (resolve i18n value key storage c) \<Longrightarrow> fst (resolve i18n value key storage c) = c\<lparr>isLoading := True\<rparr>"
  by (simp add: resolve_def split: option.splits if_splits)

lemma translated_unmounted:
  "\<not> mounted c \<Longrightarrow> translated lang value accepted result (c, storage) = (c, storage)"
  by (simp add: translated_def)

lemma request_remote:
  "snd (resolve i18n value key storage c) \<Longrightarrow>
   request i18n value key remote unmounts accepted (c, storage) =
     translated (language i18n) value accepted (translateText value remote)
       (if unmounts then c\<lparr>isLoading := True, mounted := False\<rparr> else c\<lparr>isLoading := True\<rparr>, storage)"
proof -
  assume r: "snd (resolve i18n value key storage c)"
  then have "resolve i18n value key storage c = (c\<lparr>isLoading := True\<rparr>, True)"
    using resolve_remote [OF r] by (simp add: prod_eq_iff)
  then show ?thesis
    by (simp add: request_def)
qed

lemma french_resolve:
  "v \<noteq> [] \<Longrightarrow> resolve french v None Map.empty c = (c\<lparr>isLoading := True\<rparr>, True)"
  by (simp add: resolve_def french_def js_def exactMatch_def truthy_def getItem_def)

text \<open>
  C5 (as stated): when the consumer unmounts before the remote call resolves and the
  call succeeds with a distinct non-empty string, the cache entry is still written.
  This fails: the continuation returns at once when the component is no longer mounted,
  before it looks at the result, so nothing is written.
\<close>

theorem unmounted_cache_counterexample:
  "translateText (js ''Hello'') (Responded (Some (js ''Bonjour''))) = Some (js ''Bonjour'') \<and>
   snd (resolve french (js ''Hello'') None Map.empty (freshText (js ''Hello''))) \<and>
   snd (request french (js ''Hello'') None (Responded (Some (js ''Bonjour''))) True True
          (freshText (js ''Hello''), Map.empty)) (cacheKey (js ''fr'') (js ''Hello'')) = None"
proof -
  have h: "js ''Hello'' \<noteq> []" by (simp add: js_def)
  have t: "translateText (js ''Hello'') (Responded (Some (js ''Bonjour''))) = Some (js ''Bonjour'')"
    by (simp add: translateText_def trim_def js_def isSpace_def)
  have r: "snd (resolve french (js ''Hello'') None Map.empty (freshText (js ''Hello'')))"
    by (simp add: french_resolve [OF h])
  have "request french (js ''Hello'') None (Responded (Some (js ''Bonjour''))) True True
          (freshText (js ''Hello''), Map.empty) =
        ((freshText (js ''Hello''))\<lparr>isLoading := True, mounted := False\<rparr>, Map.empty)"
    by (simp add: request_remote [OF r] translated_def)
  with t r show ?thesis by simp
qed

text \<open>
  C5 (amended): if the consumer unmounts before its outstanding remote call resolves,
  the result is discarded altogether: the display is not updated and no cache entry is
  written, whatever the call returned. A cache entry is written (and the translation
  shown) when the component is still mounted and the result is a non-empty string
  distinct from the source text.
\<close>

theorem unmounted_result_discarded:
  "(snd (resolve i18n value key storage c) \<longrightarrow>
      request i18n value key remote True accepted (c, storage) =
        (c\<lparr>isLoading := True, mounted := False\<rparr>, storage)) \<and>
   (\<not> mounted c \<longrightarrow> translated lang value accepted result (c, storage) = (c, storage)) \<and>
   (mounted c \<and> truthy result = Some r \<and> r \<noteq> value \<longrightarrow>
      translated lang value True result (c, storage) =
        (shown r c, storage(cacheKey lang value \<mapsto> Text r)))"
  by (simp add: request_remote translated_unmounted) (simp add: translated_def)

theorem unmounted_result_discarded_witness:
  "snd (resolve french (js ''Hello'') None Map.empty (freshText (js ''Hello''))) \<and>
   request french (js ''Hello'') None (Responded (Some (js ''Bonjour''))) True True
     (freshText (js ''Hello''), Map.empty) =
     ((freshText (js ''Hello''))\<lparr>isLoading := True, mounted := False\<rparr>, Map.empty)"
proof -
  have h: "js ''Hello'' \<noteq> []" by (simp add: js_def)
  have r: "snd (resolve french (js ''Hello'') None Map.empty (freshText (js ''Hello'')))"
    by (simp add: french_resolve [OF h])
  from unmounted_result_discarded [of french "js ''Hello''" None Map.empty "freshText (js ''Hello'')"
      "Responded (Some (js ''Bonjour''))" True] r
  show ?thesis by simp
qed

lemma soft_failure_not_cached:
  assumes "mounted c" and "snd (resolve i18n value key storage c)"
    and "translateText value remote = None \<or> translateText value remote = Some value"
  shows "request i18n value key remote False accepted (c, storage) = (shown value (c\<lparr>isLoading := True\<rparr>), storage)"
    and "snd (resolve i18n value key (snd (request i18n value key remote False accepted (c, storage))) c')"
proof -
  show eq: "request i18n value key remote False accepted (c, storage) = (shown value (c\<lparr>isLoading := True\<rparr>), storage)"
    using assms by (auto simp: request_remote translated_def truthy_def)
  show "snd (resolve i18n value key (snd (request i18n value key remote False accepted (c, storage))) c')"
    using assms(2) by (simp add: eq resolve_storage_only [of _ _ _ _ c' c])
qed

lemma translateText_no_result:
  "translateText value Failed = None"
  "translateText value (Responded None) = None"
  "translateText value (Responded (Some [])) = None"
  "trim value = value \<Longrightarrow> translateText value (Responded (Some value)) = (if value = [] then None else Some value)"
  by (simp_all add: translateText_def trim_def)

text \<open>
  C4: a remote call that returns text identical to the input is to be treated as no
  result: the source text is shown, no cache entry is written, and the next request
  calls the remote service again. The code compares the trimmed answer with the
  untrimmed source text, so for a source text that ends with a space an identical
  answer is taken for a translation: it is shown without the space, it is cached, and
  the next request is served from the cache without a remote call.
\<close>

theorem padded_source_text_cached:
  "translateText (js ''Jebena '') (Responded (Some (js ''Jebena ''))) = Some (js ''Jebena'') \<and>
   request french (js ''Jebena '') None (Responded (Some (js ''Jebena ''))) False True
       (freshText (js ''Jebena ''), Map.empty) =
     (shown (js ''Jebena'') (freshText (js ''Jebena '')),
      [cacheKey (js ''fr'') (js ''Jebena '') \<mapsto> Text (js ''Jebena'')]) \<and>
   \<not> snd (resolve french (js ''Jebena '') None
            [cacheKey (js ''fr'') (js ''Jebena '') \<mapsto> Text (js ''Jebena'')]
            (shown (js ''Jebena'') (freshText (js ''Jebena ''))))"
proof -
  have h: "js ''Jebena '' \<noteq> []" by (simp add: js_def)
  have t: "translateText (js ''Jebena '') (Responded (Some (js ''Jebena ''))) = Some (js ''Jebena'')"
    by (simp add: translateText_def trim_def js_def isSpace_def)
  have r: "snd (resolve french (js ''Jebena '') None Map.empty (freshText (js ''Jebena '')))"
    by (simp add: french_resolve [OF h])
  have ne: "js ''Jebena'' \<noteq> js ''Jebena ''" "js ''Jebena'' \<noteq> []" by (simp_all add: js_def)
  have q: "request french (js ''Jebena '') None (Responded (Some (js ''Jebena ''))) False True
       (freshText (js ''Jebena ''), Map.empty) =
     (shown (js ''Jebena'') (freshText (js ''Jebena '')),
      [cacheKey (js ''fr'') (js ''Jebena '') \<mapsto> Text (js ''Jebena'')])"
    unfolding request_remote [OF r] t
    using ne by (simp add: translated_def truthy_def french_def freshText_def shown_def)
  have again: "\<not> snd (resolve french (js ''Jebena '') None
            [cacheKey (js ''fr'') (js ''Jebena '') \<mapsto> Text (js ''Jebena'')]
            (shown (js ''Jebena'') (freshText (js ''Jebena ''))))"
    using ne h by (simp add: resolve_def french_def exactMatch_def truthy_def getItem_def js_def)
  from t q again show ?thesis by (intro conjI) assumption+
qed

end
